theory Spec2Isabelle
  imports Main
begin

section \<open>Values, exceptions and observable events\<close>

text \<open>
  The embedding follows \<^verbatim>\<open>randrctl/ctl.py\<close>. Python values that reach the code from a
  YAML configuration file are dynamically typed; they are kept as a datatype so that the
  attribute errors of the source are branches of the model. Floats and mapping keys that
  are not strings are outside the model.
\<close>

datatype yaml =
    YNull
  | YBool bool
  | YInt int
  | YStr string
  | YSeq "yaml list"
  | YMap "(string \<times> yaml) list"

text \<open>Python exceptions: the class and the message that \<^verbatim>\<open>str(e)\<close> returns.\<close>

datatype exn =
    AttributeError string
  | TypeError string
  | IndexError string
  | YAMLError string
  | Exception string

fun str_exn :: "exn \<Rightarrow> string" where
  "str_exn (AttributeError m) = m"
| "str_exn (TypeError m) = m"
| "str_exn (IndexError m) = m"
| "str_exn (YAMLError m) = m"
| "str_exn (Exception m) = m"

text \<open>The name Python prints for the type of a value, as it appears in error messages.\<close>

fun type_name :: "yaml \<Rightarrow> string" where
  "type_name YNull = ''NoneType''"
| "type_name (YBool b) = ''bool''"
| "type_name (YInt i) = ''int''"
| "type_name (YStr s) = ''str''"
| "type_name (YSeq xs) = ''list''"
| "type_name (YMap kvs) = ''dict''"

definition quote :: "string \<Rightarrow> string" where
  "quote s = [CHR 0x27] @ s @ [CHR 0x27]"

definition no_attribute :: "yaml \<Rightarrow> string \<Rightarrow> exn" where
  "no_attribute v a =
     AttributeError (quote (type_name v) @ '' object has no attribute '' @ quote a)"

subsection \<open>Profiles\<close>

text \<open>
  Modelled from the spec: the classes \<^verbatim>\<open>Output\<close>, \<^verbatim>\<open>Rule\<close> and \<^verbatim>\<open>Profile\<close> of
  \<^verbatim>\<open>randrctl.model\<close> are not among the sources. Their fields are those of the profile
  record of the specification: an output has a name, mode, position, rotation, refresh
  rate and primary flag; a rule has an optional EDID, an optional set of supported modes
  and an optional preferred mode; a profile has a name, a priority, a sequence of
  outputs and an optional mapping from output names to rules (a dictionary, kept as an
  association list in insertion order).
\<close>

record output_rec =
  out_name :: string
  mode :: string
  pos :: string
  rotation :: string
  rate :: "int option"
  primary :: bool

record rule =
  edid :: "string option"
  supports :: "string set option"
  prefers :: "string option"

record profile =
  name :: string
  priority :: int
  outputs :: "output_rec list"
  rules :: "(string \<times> rule) list option"

subsection \<open>Events\<close>

type_synonym env = "string \<rightharpoonup> string"

datatype level = DEBUG | INFO | WARNING | ERROR

datatype log_arg = S string | L "string list"

text \<open>
  What a run does to the outside world, in order: a log record (level, format string,
  arguments), a call of \<^verbatim>\<open>subprocess.Popen(hook, env=env, shell=True)\<close>, a call of the
  display controller's original \<^verbatim>\<open>apply\<close>, and the calls of the profile manager's
  \<^verbatim>\<open>write\<close> and \<^verbatim>\<open>print\<close> with their \<^verbatim>\<open>yaml_flow_style\<close> argument.
\<close>

datatype event =
    Log level string "log_arg list"
  | Popen string env
  | Apply profile
  | Write profile bool
  | Print profile bool

section \<open>Hooks\<close>

text \<open>
  \<^verbatim>\<open>str.strip()\<close> with no argument removes leading and trailing whitespace. Strings are
  modelled over ASCII, where Python's \<^verbatim>\<open>isspace\<close> holds of tab, line feed, vertical tab,
  form feed, carriage return, the separators 0x1C to 0x1F and the space.
\<close>

definition isspace :: "char \<Rightarrow> bool" where
  "isspace c \<longleftrightarrow> c \<in> set [CHR 0x09, CHR 0x0A, CHR 0x0B, CHR 0x0C, CHR 0x0D,
                          CHR 0x1C, CHR 0x1D, CHR 0x1E, CHR 0x1F, CHR 0x20]"

definition strip :: "string \<Rightarrow> string" where
  "strip s = rev (dropWhile isspace (rev (dropWhile isspace s)))"

definition msg_calling :: string where
  "msg_calling = ''Calling '' @ quote ''%s''"

definition msg_hook_error :: string where
  "msg_hook_error = ''Error while executing hook '' @ quote ''%s'' @ '': %s''"

text \<open>
  The hook configuration: the three fields of \<^verbatim>\<open>Hook\<close>. They hold whatever the
  configuration file gave; \<^verbatim>\<open>None\<close> is \<^const>\<open>YNull\<close>.
\<close>

record hooks =
  prior_switch :: yaml
  post_switch :: yaml
  post_fail :: yaml

text \<open>
  \<^verbatim>\<open>Hook.hook(hook, p, err=None)\<close>. The process environment \<open>environ\<close> and the outcome
  of \<^verbatim>\<open>subprocess.Popen\<close> (\<open>None\<close> when the child was started, the exception otherwise)
  are parameters. The test \<^verbatim>\<open>len(hook.strip()) > 0\<close> is outside the \<^verbatim>\<open>try\<close>, so a value
  without a \<^verbatim>\<open>strip\<close> attribute raises; everything after it is inside the \<^verbatim>\<open>try\<close>.
  \<^verbatim>\<open>if err:\<close> holds of a string that is neither \<^verbatim>\<open>None\<close> nor empty.
\<close>

definition hook_env :: "env \<Rightarrow> profile \<Rightarrow> string option \<Rightarrow> env" where
  "hook_env environ p err =
     (let env = environ(''randr_profile'' \<mapsto> name p)
      in case err of
           None \<Rightarrow> env
         | Some e \<Rightarrow> if e \<noteq> [] then env(''randr_error'' \<mapsto> e) else env)"

definition hook ::
  "(string \<Rightarrow> env \<Rightarrow> exn option) \<Rightarrow> env \<Rightarrow> yaml \<Rightarrow> profile \<Rightarrow> string option
     \<Rightarrow> event list \<times> (exn + unit)" where
  "hook popen environ h p err =
     (case h of
        YNull \<Rightarrow> ([], Inr ())
      | YStr s \<Rightarrow>
          if length (strip s) > 0 then
            (let env = hook_env environ p err
             in case popen s env of
                  None \<Rightarrow> ([Log DEBUG msg_calling [S s], Popen s env], Inr ())
                | Some e \<Rightarrow>
                    ([Log DEBUG msg_calling [S s], Popen s env,
                      Log WARNING msg_hook_error [S s, S (str_exn e)]], Inr ()))
          else ([], Inr ())
      | _ \<Rightarrow> ([], Inl (no_attribute h ''strip'')))"

text \<open>
  The display controller object. \<^verbatim>\<open>Hook.decorate\<close> replaces its \<^verbatim>\<open>apply\<close> attribute at run
  time, so the object is a record of its two methods: \<open>xr_apply\<close> gives the events of a
  call and whether it returned or raised, \<open>get_connected_outputs\<close> the connected
  outputs or the exception raised. The class \<^verbatim>\<open>Xrandr\<close> itself is a collaborator; the
  type of a connected output is left open.
\<close>

record 'c xrandr =
  xr_apply :: "profile \<Rightarrow> event list \<times> (exn + unit)"
  get_connected_outputs :: "exn + 'c list"

text \<open>
  \<^verbatim>\<open>Hook.decorate\<close>: \<open>apply_hook\<close> is the closure that replaces \<^verbatim>\<open>xrandr.apply\<close>. The
  \<^verbatim>\<open>try\<close> covers the prior hook, the original apply and the post hook; the handler
  runs the post-fail hook with \<^verbatim>\<open>str(e)\<close> and re-raises \<open>e\<close>, unless the post-fail
  hook itself raises, which then propagates instead.
\<close>

definition apply_hook_except ::
  "(string \<Rightarrow> env \<Rightarrow> exn option) \<Rightarrow> env \<Rightarrow> hooks \<Rightarrow> profile \<Rightarrow> event list \<Rightarrow> exn
     \<Rightarrow> event list \<times> (exn + unit)" where
  "apply_hook_except popen environ self p evs e =
     (case hook popen environ (post_fail self) p (Some (str_exn e)) of
        (evs', Inl e') \<Rightarrow> (evs @ evs', Inl e')
      | (evs', Inr _) \<Rightarrow> (evs @ evs', Inl e))"

definition apply_hook ::
  "(string \<Rightarrow> env \<Rightarrow> exn option) \<Rightarrow> env \<Rightarrow> hooks
     \<Rightarrow> (profile \<Rightarrow> event list \<times> (exn + unit)) \<Rightarrow> profile \<Rightarrow> event list \<times> (exn + unit)" where
  "apply_hook popen environ self do_apply p =
     (case hook popen environ (prior_switch self) p None of
        (evs1, Inl e) \<Rightarrow> apply_hook_except popen environ self p evs1 e
      | (evs1, Inr _) \<Rightarrow>
          (case do_apply p of
             (evs2, Inl e) \<Rightarrow> apply_hook_except popen environ self p (evs1 @ evs2) e
           | (evs2, Inr _) \<Rightarrow>
               (case hook popen environ (post_switch self) p None of
                  (evs3, Inl e) \<Rightarrow>
                    apply_hook_except popen environ self p (evs1 @ evs2 @ evs3) e
                | (evs3, Inr _) \<Rightarrow> (evs1 @ evs2 @ evs3, Inr ()))))"

definition decorate ::
  "(string \<Rightarrow> env \<Rightarrow> exn option) \<Rightarrow> env \<Rightarrow> hooks \<Rightarrow> 'c xrandr \<Rightarrow> 'c xrandr" where
  "decorate popen environ self xrandr =
     (let do_apply = xr_apply xrandr
      in xrandr\<lparr>xr_apply := apply_hook popen environ self do_apply\<rparr>)"

text \<open>
  The declared type of a hook command is \<^verbatim>\<open>str\<close> with default \<^verbatim>\<open>None\<close>; \<open>pystr\<close> is
  the value such a command is at run time.
\<close>

fun pystr :: "string option \<Rightarrow> yaml" where
  "pystr None = YNull"
| "pystr (Some s) = YStr s"

section \<open>The facade\<close>

text \<open>
  The profile manager is a collaborator (\<^verbatim>\<open>randrctl.profile.ProfileManager\<close>): a record of
  the methods the facade calls that return a value. Its \<^verbatim>\<open>write\<close> and \<^verbatim>\<open>print\<close> are
  the events \<^const>\<open>Write\<close> and \<^const>\<open>Print\<close>.
\<close>

record 'c profile_manager =
  read_all :: "exn + profile list"
  read_one :: "string \<Rightarrow> exn + profile"
  profile_from_xrandr :: "'c list \<Rightarrow> string \<Rightarrow> profile"

record 'c randrctl =
  profile_manager :: "'c profile_manager"
  xrandr :: "'c xrandr"

definition switch_to :: "'c randrctl \<Rightarrow> string \<Rightarrow> event list \<times> (exn + unit)" where
  "switch_to self profile_name =
     (case read_one (profile_manager self) profile_name of
        Inl e \<Rightarrow> ([], Inl e)
      | Inr p \<Rightarrow> xr_apply (xrandr self) p)"

text \<open>
  \<^verbatim>\<open>RandrCtl.switch_auto\<close>. \<^verbatim>\<open>ProfileMatcher.find_best\<close> is not among the sources and is
  a parameter.
\<close>

definition switch_auto ::
  "(profile list \<Rightarrow> 'c list \<Rightarrow> profile option) \<Rightarrow> 'c randrctl \<Rightarrow> event list \<times> (exn + unit)" where
  "switch_auto find_best self =
     (case read_all (profile_manager self) of
        Inl e \<Rightarrow> ([], Inl e)
      | Inr profiles \<Rightarrow>
          (case get_connected_outputs (xrandr self) of
             Inl e \<Rightarrow> ([], Inl e)
           | Inr xrandr_outputs \<Rightarrow>
               (case find_best profiles xrandr_outputs of
                  Some matching \<Rightarrow> xr_apply (xrandr self) matching
                | None \<Rightarrow> ([Log WARNING ''No matching profile found'' []], Inr ()))))"



section \<open>The factory\<close>

subsection \<open>The file system\<close>

text \<open>
  What \<^verbatim>\<open>yaml.load\<close> makes of a configuration file: it raises \<^verbatim>\<open>yaml.YAMLError\<close>, or it
  returns \<^verbatim>\<open>None\<close> (an empty file), or a dictionary with string keys, given as its
  entries in document order (a later entry of the same key replaces an earlier one).
  Documents whose top level is a scalar or a sequence are outside the model.
\<close>

datatype document =
    Unparsable string
  | Empty_document
  | Mapping "(string \<times> yaml) list"

text \<open>
  The code observes the file system through \<^verbatim>\<open>os.path.isdir\<close>, \<^verbatim>\<open>os.path.isfile\<close> and
  \<^verbatim>\<open>open\<close>: the state is the set of paths that are directories and the regular files
  with what the YAML loader makes of each. Failures of the operating system (missing
  permissions, a regular file where a directory is to be made) are outside the model.
\<close>

record filesystem =
  dirs :: "string set"
  files :: "string \<rightharpoonup> document"

definition isdir :: "filesystem \<Rightarrow> string \<Rightarrow> bool" where
  "isdir fs path \<longleftrightarrow> path \<in> dirs fs"

definition isfile :: "filesystem \<Rightarrow> string \<Rightarrow> bool" where
  "isfile fs path \<longleftrightarrow> files fs path \<noteq> None"

text \<open>\<^verbatim>\<open>os.path.join\<close> of two components, on POSIX.\<close>

definition path_join :: "string \<Rightarrow> string \<Rightarrow> string" where
  "path_join a b =
     (if b \<noteq> [] \<and> hd b = CHR ''/'' then b
      else if a = [] \<or> last a = CHR ''/'' then a @ b
      else a @ ''/'' @ b)"

text \<open>
  \<^verbatim>\<open>os.makedirs(path, exist_ok=True)\<close> makes the directory and every missing ancestor:
  the prefixes of the path that end before a separator.
\<close>

definition ancestors :: "string \<Rightarrow> string list" where
  "ancestors path =
     map (\<lambda>i. take i path) (filter (\<lambda>i. path ! i = CHR ''/'') [1..<length path])"

definition makedirs :: "string \<Rightarrow> filesystem \<Rightarrow> filesystem" where
  "makedirs path fs = fs\<lparr>dirs := dirs fs \<union> set (ancestors path) \<union> {path}\<rparr>"

subsection \<open>Homes\<close>

definition config_name :: string where
  "config_name = ''config.yaml''"

definition profile_dir :: string where
  "profile_dir = ''profiles''"

record ctl_factory =
  preferred_home :: string
  homes :: "string list"

text \<open>\<^verbatim>\<open>CtlFactory.__init__\<close>: \<^verbatim>\<open>homes[0]\<close> raises on the empty list.\<close>

definition CtlFactory :: "string list \<Rightarrow> exn + ctl_factory" where
  "CtlFactory hs =
     (case hs of
        [] \<Rightarrow> Inl (IndexError ''list index out of range'')
      | h # _ \<Rightarrow> Inr \<lparr>preferred_home = h, homes = hs\<rparr>)"

definition is_valid_home :: "filesystem \<Rightarrow> string \<Rightarrow> bool" where
  "is_valid_home fs home_dir = (let profiles = path_join home_dir profile_dir in isdir fs profiles)"

definition init_home :: "string \<Rightarrow> filesystem \<Rightarrow> event list \<times> filesystem" where
  "init_home home_dir fs =
     (let profiles = path_join home_dir profile_dir
      in ([Log WARNING ''Creating home under %s'' [S home_dir]], makedirs profiles fs))"

text \<open>
  \<^verbatim>\<open>CtlFactory.ensure_homes\<close>: the events, the factory with its \<^verbatim>\<open>homes\<close> replaced, and
  the file system afterwards.
\<close>

definition ensure_homes ::
  "ctl_factory \<Rightarrow> filesystem \<Rightarrow> event list \<times> ctl_factory \<times> filesystem" where
  "ensure_homes self fs =
     (let valid_homes = filter (is_valid_home fs) (homes self)
      in if length valid_homes = 0 then
           (let (evs, fs') = init_home (preferred_home self) fs;
                valid_homes = [preferred_home self]
            in (Log WARNING ''No home directories found among %s'' [L (homes self)] # evs
                  @ [Log INFO ''Using %s as home directories'' [L valid_homes]],
                self\<lparr>homes := valid_homes\<rparr>, fs'))
         else if count_list valid_homes (preferred_home self) = 0 then
           ([Log WARNING ''No home directory found under preferred location %s''
               [S (preferred_home self)],
             Log INFO ''Using %s as home directories'' [L valid_homes]],
            self\<lparr>homes := valid_homes\<rparr>, fs)
         else
           ([Log INFO ''Using %s as home directories'' [L valid_homes]],
            self\<lparr>homes := valid_homes\<rparr>, fs))"

subsection \<open>Configuration\<close>

type_synonym config = "string \<rightharpoonup> yaml"

text \<open>\<^verbatim>\<open>dict.get\<close> on a dictionary given by its entries in insertion order.\<close>

definition dict_get :: "(string \<times> yaml) list \<Rightarrow> string \<Rightarrow> yaml" where
  "dict_get kvs k = (case map_of (rev kvs) k of None \<Rightarrow> YNull | Some v \<Rightarrow> v)"

text \<open>
  \<^verbatim>\<open>CtlFactory._config_safe\<close>: \<^verbatim>\<open>config.get(section).get(property) if section in config
  else None\<close>. Only a dictionary has the attribute \<^verbatim>\<open>get\<close>.
\<close>

definition config_safe :: "config \<Rightarrow> string \<Rightarrow> string \<Rightarrow> exn + yaml" where
  "config_safe config section property =
     (case config section of
        None \<Rightarrow> Inr YNull
      | Some (YMap kvs) \<Rightarrow> Inr (dict_get kvs property)
      | Some v \<Rightarrow> Inl (no_attribute v ''get''))"

text \<open>\<^verbatim>\<open>CtlFactory._configs\<close>: the configuration files that exist, in the order of the homes.\<close>

definition configs :: "ctl_factory \<Rightarrow> filesystem \<Rightarrow> string list" where
  "configs self fs =
     filter (isfile fs) (map (\<lambda>homedir. path_join homedir config_name) (homes self))"

text \<open>\<^verbatim>\<open>config.update(d)\<close> for a dictionary \<open>d\<close> given by its entries.\<close>

definition dict_update :: "config \<Rightarrow> (string \<times> yaml) list \<Rightarrow> config" where
  "dict_update config kvs = foldl (\<lambda>m (k, v). m(k \<mapsto> v)) config kvs"

text \<open>
  The loop of \<^verbatim>\<open>get_randrctl\<close> over the configuration files. A \<^verbatim>\<open>yaml.YAMLError\<close> is
  caught and logged; \<^verbatim>\<open>config.update(None)\<close> raises a \<^verbatim>\<open>TypeError\<close> that nothing
  catches.
\<close>

fun load_configs :: "filesystem \<Rightarrow> string list \<Rightarrow> config \<Rightarrow> event list \<times> (exn + config)" where
  "load_configs fs [] config = ([], Inr config)"
| "load_configs fs (config_file # rest) config =
     (case files fs config_file of
        None \<Rightarrow> ([], Inl (Exception ''No such file or directory''))
      | Some (Unparsable m) \<Rightarrow>
          (let (evs, r) = load_configs fs rest config
           in (Log ERROR ''error reading configuration file %s'' [S config_file] # evs, r))
      | Some Empty_document \<Rightarrow>
          ([], Inl (TypeError (quote ''NoneType'' @ '' object is not iterable'')))
      | Some (Mapping kvs) \<Rightarrow>
          (let (evs, r) = load_configs fs rest (dict_update config kvs)
           in (Log DEBUG ''read configuration from %s'' [S config_file] # evs, r)))"

text \<open>
  \<^verbatim>\<open>CtlFactory.get_randrctl\<close>. The constructors \<^verbatim>\<open>ProfileManager(profile_paths)\<close> and
  \<^verbatim>\<open>Xrandr()\<close> are parameters, as are the environment and \<^verbatim>\<open>Popen\<close> that the hooks
  will use.
\<close>

definition get_randrctl ::
  "(string \<Rightarrow> env \<Rightarrow> exn option) \<Rightarrow> env \<Rightarrow> (string list \<Rightarrow> 'c profile_manager) \<Rightarrow> 'c xrandr
     \<Rightarrow> ctl_factory \<Rightarrow> filesystem \<Rightarrow> event list \<times> (exn + 'c randrctl)" where
  "get_randrctl popen environ ProfileManager Xrandr self fs =
     (let config_files = rev (configs self fs)
      in case load_configs fs config_files Map.empty of
           (evs, Inl e) \<Rightarrow> (evs, Inl e)
         | (evs, Inr config) \<Rightarrow>
             (let profile_paths = map (\<lambda>x. path_join x profile_dir) (homes self);
                  profile_reader = ProfileManager profile_paths;
                  xrandr = Xrandr
              in case config_safe config ''hooks'' ''prior_switch'' of
                   Inl e \<Rightarrow> (evs, Inl e)
                 | Inr prior_switch' \<Rightarrow>
              (case config_safe config ''hooks'' ''post_switch'' of
                   Inl e \<Rightarrow> (evs, Inl e)
                 | Inr post_switch' \<Rightarrow>
              (case config_safe config ''hooks'' ''post_fail'' of
                   Inl e \<Rightarrow> (evs, Inl e)
                 | Inr post_fail' \<Rightarrow>
                     (let xrandr =
                            (if prior_switch' \<noteq> YNull \<or> post_switch' \<noteq> YNull \<or> post_fail' \<noteq> YNull
                             then decorate popen environ
                                    \<lparr>prior_switch = prior_switch', post_switch = post_switch',
                                     post_fail = post_fail'\<rparr> xrandr
                             else xrandr)
                      in (evs, Inr \<lparr>profile_manager = profile_reader, xrandr = xrandr\<rparr>))))))"

section \<open>The profile matcher\<close>

text \<open>
  Modelled from the spec: the class \<^verbatim>\<open>ProfileMatcher\<close> of \<^verbatim>\<open>randrctl.profile\<close> is not among
  the sources, nor is the type of a connected output. A connected output is the live
  state the display controller reports: name, EDID, set of supported modes, preferred
  mode and the connected flag.
\<close>

record connected_output =
  co_name :: string
  co_edid :: string
  supported_modes :: "string set"
  preferred_mode :: string
  connected :: bool

text \<open>
  Modelled from the spec: an output named in the profile is present when the connected
  sequence has an output of that name.
\<close>

definition present :: "connected_output list \<Rightarrow> string \<Rightarrow> bool" where
  "present cs n \<longleftrightarrow> n \<in> co_name ` set cs"

text \<open>
  Modelled from the spec: a profile is disqualified when an output named in its outputs
  is not present in the connected sequence. Connected outputs that the profile does not
  mention are permitted and ignored.
\<close>

definition disqualified :: "profile \<Rightarrow> connected_output list \<Rightarrow> bool" where
  "disqualified p cs \<longleftrightarrow> (\<exists>out \<in> set (outputs p). \<not> present cs (out_name out))"

text \<open>
  Modelled from the spec: the weight of one output, from the strongest signal of its rule
  that applies: 100 for an EDID that is present and equal to the connected output's, 50
  with no EDID for a set of supported modes that is present and included in the connected
  output's, 25 with neither for a preferred mode equal to the connected output's, and 1
  when the profile has no rule for the output. The spec gives no weight to a rule none of
  whose signals applies; it contributes nothing here.
\<close>

definition output_weight :: "rule option \<Rightarrow> connected_output \<Rightarrow> int" where
  "output_weight r c =
     (case r of
        None \<Rightarrow> 1
      | Some r \<Rightarrow>
          (case edid r of
             Some e \<Rightarrow> if e = co_edid c then 100 else 0
           | None \<Rightarrow>
               (case supports r of
                  Some ms \<Rightarrow> if ms \<subseteq> supported_modes c then 50 else 0
                | None \<Rightarrow> if prefers r = Some (preferred_mode c) then 25 else 0)))"

text \<open>
  Modelled from the spec: the rule of a profile for an output name, if it has one; a
  profile whose rules are absent has none.
\<close>

definition rule_for :: "profile \<Rightarrow> string \<Rightarrow> rule option" where
  "rule_for p n = (case rules p of None \<Rightarrow> None | Some rs \<Rightarrow> map_of rs n)"

text \<open>
  Modelled from the spec: the disqualification floor, the score of a disqualified
  profile, below the score zero of a profile without outputs.
\<close>

definition disqualification_floor :: int where
  "disqualification_floor = - 1"

text \<open>
  Modelled from the spec: the score of a profile is the disqualification floor when the
  profile is disqualified, and otherwise the sum over its outputs of the weight of each
  against the connected output of its name.
\<close>

definition profile_score :: "profile \<Rightarrow> connected_output list \<Rightarrow> int" where
  "profile_score p cs =
     (if disqualified p cs then disqualification_floor
      else sum_list (map (\<lambda>out.
             case find (\<lambda>c. co_name c = out_name out) cs of
               None \<Rightarrow> 0
             | Some c \<Rightarrow> output_weight (rule_for p (out_name out)) c) (outputs p)))"

text \<open>
  Modelled from the spec: the lexicographic order on names, by character code.
\<close>

fun lex_le :: "string \<Rightarrow> string \<Rightarrow> bool" where
  "lex_le [] ys = True"
| "lex_le (x # xs) [] = False"
| "lex_le (x # xs) (y # ys) =
     ((of_char x :: nat) < of_char y \<or> (x = y \<and> lex_le xs ys))"

text \<open>
  Modelled from the spec: the order of two results. The higher score comes first; among
  equal scores the higher priority, then the profile with more outputs, then the name
  that is first in lexicographic order.
\<close>

definition before :: "int \<times> profile \<Rightarrow> int \<times> profile \<Rightarrow> bool" where
  "before a b =
     (case (a, b) of
        ((s1, p1), (s2, p2)) \<Rightarrow>
          s2 < s1 \<or> (s1 = s2 \<and>
            (priority p2 < priority p1 \<or> (priority p1 = priority p2 \<and>
              (length (outputs p2) < length (outputs p1) \<or>
                 (length (outputs p1) = length (outputs p2) \<and> lex_le (name p1) (name p2)))))))"

text \<open>
  Modelled from the spec: a result put at its place in a sequence of results that is in
  descending order.
\<close>

fun insert_result :: "int \<times> profile \<Rightarrow> (int \<times> profile) list \<Rightarrow> (int \<times> profile) list" where
  "insert_result r [] = [r]"
| "insert_result r (x # xs) = (if before r x then r # x # xs else x # insert_result r xs)"

text \<open>
  Modelled from the spec: \<open>match\<close> returns the results of the profiles that are not
  disqualified, in descending order.
\<close>

definition match :: "profile list \<Rightarrow> connected_output list \<Rightarrow> (int \<times> profile) list" where
  "match profiles cs =
     foldr insert_result
       (map (\<lambda>p. (profile_score p cs, p)) (filter (\<lambda>p. \<not> disqualified p cs) profiles)) []"

text \<open>
  Modelled from the spec: \<open>find_best\<close> returns the profile of the first result of
  \<open>match\<close> when its score exceeds the disqualification floor, and nothing otherwise.
\<close>

definition find_best :: "profile list \<Rightarrow> connected_output list \<Rightarrow> profile option" where
  "find_best profiles cs =
     (case match profiles cs of
        [] \<Rightarrow> None
      | (score, p) # _ \<Rightarrow> if disqualification_floor < score then Some p else None)"

section \<open>Vocabulary of the statements\<close>



text \<open>
  The configuration a file contributes: the dictionary of a file that parses to a
  mapping, and nothing for any other file or for no file. The configuration of a home is
  that of its configuration file.
\<close>

definition file_config :: "filesystem \<Rightarrow> string \<Rightarrow> config" where
  "file_config fs f =
     (case files fs f of Some (Mapping kvs) \<Rightarrow> map_of (rev kvs) | _ \<Rightarrow> Map.empty)"

definition home_config :: "filesystem \<Rightarrow> string \<Rightarrow> config" where
  "home_config fs h = file_config fs (path_join h config_name)"

text \<open>
  The shallow overwrite merge, in the words of the specification: the configurations are
  combined from the first to the last, each replacing whole the values of the keys it
  defines.
\<close>

definition shallow_merge :: "config list \<Rightarrow> config" where
  "shallow_merge cs = foldl (++) Map.empty cs"

text \<open>A file that the loop can pass: it exists and \<^verbatim>\<open>yaml.load\<close> does not return \<^verbatim>\<open>None\<close> on it.\<close>

definition loadable :: "filesystem \<Rightarrow> string \<Rightarrow> bool" where
  "loadable fs f \<longleftrightarrow> files fs f \<noteq> None \<and> files fs f \<noteq> Some Empty_document"

text \<open>The profiles and the connected output of the first scenario of the specification.\<close>

definition office :: profile where
  "office = \<lparr>name = ''office'', priority = 100,
     outputs = [\<lparr>out_name = ''DP-1'', mode = ''1920x1080'', pos = ''0x0'',
                 rotation = ''normal'', rate = None, primary = True\<rparr>],
     rules = Some [(''DP-1'', \<lparr>edid = Some ''X1'', supports = None, prefers = None\<rparr>)]\<rparr>"

definition laptop :: profile where
  "laptop = \<lparr>name = ''laptop'', priority = 50,
     outputs = [\<lparr>out_name = ''eDP-1'', mode = ''1920x1080'', pos = ''0x0'',
                 rotation = ''normal'', rate = None, primary = True\<rparr>],
     rules = Some [(''eDP-1'', \<lparr>edid = Some ''X2'', supports = None, prefers = None\<rparr>)]\<rparr>"

definition panel :: connected_output where
  "panel = \<lparr>co_name = ''eDP-1'', co_edid = ''X2'', supported_modes = {''1920x1080''},
     preferred_mode = ''1920x1080'', connected = True\<rparr>"

text \<open>
  Two homes whose configuration files both define \<^verbatim>\<open>hooks\<close>, and two homes of which the
  preferred one has a configuration file that does not parse.
\<close>

definition two_homes :: filesystem where
  "two_homes = \<lparr>dirs = {''/home/u/.config/randrctl/profiles'', ''/etc/randrctl/profiles''},
     files = [''/home/u/.config/randrctl/config.yaml'' \<mapsto>
                Mapping [(''hooks'', YMap [(''prior_switch'', YStr ''echo start'')])],
              ''/etc/randrctl/config.yaml'' \<mapsto>
                Mapping [(''hooks'', YMap [(''prior_switch'', YStr ''echo etc''),
                                           (''post_fail'', YStr ''echo fail'')])]]\<rparr>"



section \<open>Properties\<close>

subsection \<open>Hooks\<close>

lemma all_dropWhile: "(\<forall>x \<in> set (dropWhile P xs). P x) \<longleftrightarrow> (\<forall>x \<in> set xs. P x)"
  by (induction xs) auto

text \<open>A command is blank after trimming exactly when all its characters are whitespace.\<close>

lemma strip_empty_iff: "strip s = [] \<longleftrightarrow> (\<forall>c \<in> set s. isspace c)"
  by (simp add: strip_def all_dropWhile)

text \<open>A hook whose command is a string or unset never raises.\<close>

lemma hook_pystr_returns: "snd (hook popen environ (pystr c) p err) = Inr ()"
  by (cases c) (auto simp: hook_def Let_def split: option.splits)

lemma hook_pystr_eq:
  "hook popen environ (pystr c) p err = (fst (hook popen environ (pystr c) p err), Inr ())"
  using hook_pystr_returns [of popen environ c p err] by (simp add: prod_eq_iff)

lemma hook_warning:
  "strip cmd \<noteq> [] \<Longrightarrow> popen cmd (hook_env environ p err) = Some x \<Longrightarrow>
     Log WARNING msg_hook_error [S cmd, S (str_exn x)]
       \<in> set (fst (hook popen environ (YStr cmd) p err))"
  by (simp add: hook_def Let_def)

lemma hook_popen_error_env:
  "strip cmd \<noteq> [] \<Longrightarrow> m \<noteq> [] \<Longrightarrow>
     Popen cmd (environ(''randr_profile'' \<mapsto> name p, ''randr_error'' \<mapsto> m))
       \<in> set (fst (hook popen environ (YStr cmd) p (Some m)))"
  by (simp add: hook_def hook_env_def Let_def split: option.splits)

text \<open>
  C4, as stated, fails: a hook run with the command \<^verbatim>\<open>echo fail\<close> and the empty string as
  its error calls \<^verbatim>\<open>Popen\<close> with an environment in which \<^verbatim>\<open>randr_error\<close> is not bound,
  although an error was provided.
\<close>

theorem hook_empty_error_counterexample:
  "hook (\<lambda>cmd env. None) Map.empty (YStr ''echo fail'')
      \<lparr>name = ''docked'', priority = 100, outputs = [], rules = None\<rparr> (Some []) =
     ([Log DEBUG msg_calling [S ''echo fail''],
       Popen ''echo fail'' [''randr_profile'' \<mapsto> ''docked'']], Inr ()) \<and>
   [''randr_profile'' \<mapsto> ''docked''] ''randr_error'' = None"
  by (simp add: hook_def hook_env_def strip_def isspace_def)

text \<open>
  C4, amended: a hook run whose command is unset, or blank after trimming whitespace,
  does nothing. A run with any other command logs the call and calls \<^verbatim>\<open>Popen\<close> with the
  command and the process environment extended with \<^verbatim>\<open>randr_profile\<close> bound to the
  profile's name and, exactly when an error is provided and is not the empty string, with
  \<^verbatim>\<open>randr_error\<close> bound to the error; a failure of \<^verbatim>\<open>Popen\<close> is logged as a warning, and
  the run returns normally either way.
\<close>

theorem hook_run:
  "hook popen environ YNull p err = ([], Inr ()) \<and>
   hook popen environ (YStr cmd) p err =
     (if strip cmd = [] then ([], Inr ())
      else
        (let env = (case err of
                      None \<Rightarrow> environ(''randr_profile'' \<mapsto> name p)
                    | Some e \<Rightarrow>
                        if e = [] then environ(''randr_profile'' \<mapsto> name p)
                        else environ(''randr_profile'' \<mapsto> name p, ''randr_error'' \<mapsto> e))
         in (Log DEBUG msg_calling [S cmd] # Popen cmd env #
               (case popen cmd env of
                  None \<Rightarrow> []
                | Some x \<Rightarrow> [Log WARNING msg_hook_error [S cmd, S (str_exn x)]]),
             Inr ())))"
  by (auto simp: hook_def hook_env_def Let_def split: option.splits)

theorem hook_run_witness:
  "hook (\<lambda>cmd env. None) Map.empty (YStr ''echo fail'')
      \<lparr>name = ''docked'', priority = 100, outputs = [], rules = None\<rparr> (Some ''boom'') =
     ([Log DEBUG msg_calling [S ''echo fail''],
       Popen ''echo fail'' [''randr_profile'' \<mapsto> ''docked'', ''randr_error'' \<mapsto> ''boom'']],
      Inr ()) \<and>
   hook (\<lambda>cmd env. None) Map.empty (YStr ''  '')
      \<lparr>name = ''docked'', priority = 100, outputs = [], rules = None\<rparr> (Some ''boom'') =
     ([], Inr ())"
  using hook_run [of "\<lambda>cmd env. None" Map.empty
      "\<lparr>name = ''docked'', priority = 100, outputs = [], rules = None\<rparr>" "Some ''boom''"
      "''echo fail''"]
    hook_run [of "\<lambda>cmd env. None" Map.empty
      "\<lparr>name = ''docked'', priority = 100, outputs = [], rules = None\<rparr>" "Some ''boom''"
      "''  ''"]
  by (simp add: strip_def isspace_def)

subsection \<open>The hooked apply\<close>



text \<open>The handler, when the post-fail command is a string or unset.\<close>

lemma apply_hook_except_pystr:
  assumes "post_fail self = pystr c"
  shows "apply_hook_except popen environ self p evs e =
     (evs @ fst (hook popen environ (pystr c) p (Some (str_exn e))), Inl e)"
proof -
  obtain evs' where h: "hook popen environ (pystr c) p (Some (str_exn e)) = (evs', Inr ())"
    using hook_pystr_eq by blast
  show ?thesis by (simp add: apply_hook_except_def assms h)
qed



text \<open>The hooked apply when the prior hook returns and the controller raises.\<close>

lemma apply_hook_controller_raises:
  assumes "hook popen environ (prior_switch self) p None = (evs1, Inr ())"
    and "do_apply p = (evs2, Inl e)"
  shows "apply_hook popen environ self do_apply p =
     apply_hook_except popen environ self p (evs1 @ evs2) e"
  by (simp add: apply_hook_def assms)







text \<open>
  C3, as stated, fails twice. When the controller raises an error whose message is the
  empty string, the post-fail hook is started with \<^verbatim>\<open>randr_error\<close> as the process
  environment has it (here an older value), not bound to the message of the error. When
  the post-fail command is neither a string nor unset (here \<^verbatim>\<open>post_fail: 5\<close>), the run
  of the post-fail hook raises and its error reaches the caller in place of the
  controller's.
\<close>

theorem apply_hook_failure_counterexample:
  "apply_hook (\<lambda>cmd env. None) [''randr_error'' \<mapsto> ''stale'']
      \<lparr>prior_switch = YNull, post_switch = YNull, post_fail = YStr ''echo fail''\<rparr>
      (\<lambda>p. ([Apply p], Inl (Exception [])))
      \<lparr>name = ''docked'', priority = 100, outputs = [], rules = None\<rparr> =
     ([Apply \<lparr>name = ''docked'', priority = 100, outputs = [], rules = None\<rparr>,
       Log DEBUG msg_calling [S ''echo fail''],
       Popen ''echo fail'' [''randr_error'' \<mapsto> ''stale'', ''randr_profile'' \<mapsto> ''docked'']],
      Inl (Exception [])) \<and>
   [''randr_error'' \<mapsto> ''stale'', ''randr_profile'' \<mapsto> ''docked''] ''randr_error''
     \<noteq> Some (str_exn (Exception [])) \<and>
   apply_hook (\<lambda>cmd env. None) Map.empty
      \<lparr>prior_switch = YNull, post_switch = YNull, post_fail = YInt 5\<rparr>
      (\<lambda>p. ([Apply p], Inl (Exception ''boom'')))
      \<lparr>name = ''docked'', priority = 100, outputs = [], rules = None\<rparr> =
     ([Apply \<lparr>name = ''docked'', priority = 100, outputs = [], rules = None\<rparr>],
      Inl (no_attribute (YInt 5) ''strip'')) \<and>
   no_attribute (YInt 5) ''strip'' \<noteq> Exception ''boom''"
  by (simp add: apply_hook_def apply_hook_except_def hook_def hook_env_def strip_def
      isspace_def no_attribute_def)

text \<open>
  C3, amended: when the prior-switch hook has returned, the controller's apply raises an
  error and the post-fail command is a string or unset, the run is the prior-switch
  hook, the controller's apply and the post-fail hook run with the message of the error,
  and the same error is raised to the caller whatever \<^verbatim>\<open>Popen\<close> does. When the post-fail
  command is not blank and the message is not empty, the hook is started with
  \<^verbatim>\<open>randr_error\<close> bound to the message. No run of a hook whose command is a string or
  unset raises, and a failure of \<^verbatim>\<open>Popen\<close> to start a hook is logged as a warning.
\<close>

theorem apply_hook_failure:
  assumes "snd (hook popen environ (prior_switch self) p None) = Inr ()"
    and "do_apply p = (evs, Inl e)"
    and "post_fail self = pystr c"
  shows "apply_hook popen environ self do_apply p =
      (fst (hook popen environ (prior_switch self) p None) @ evs @
         fst (hook popen environ (post_fail self) p (Some (str_exn e))), Inl e) \<and>
     (\<forall>cmd. c = Some cmd \<and> strip cmd \<noteq> [] \<and> str_exn e \<noteq> [] \<longrightarrow>
        Popen cmd (environ(''randr_profile'' \<mapsto> name p, ''randr_error'' \<mapsto> str_exn e))
          \<in> set (fst (hook popen environ (post_fail self) p (Some (str_exn e))))) \<and>
     (\<forall>h err. snd (hook popen environ (pystr h) p err) = Inr ()) \<and>
     (\<forall>cmd err x. strip cmd \<noteq> [] \<and> popen cmd (hook_env environ p err) = Some x \<longrightarrow>
        Log WARNING msg_hook_error [S cmd, S (str_exn x)]
          \<in> set (fst (hook popen environ (YStr cmd) p err)))"
proof (intro conjI allI impI)
  have h1: "hook popen environ (prior_switch self) p None =
      (fst (hook popen environ (prior_switch self) p None), Inr ())"
    using assms(1) by (simp add: prod_eq_iff)
  show "apply_hook popen environ self do_apply p =
      (fst (hook popen environ (prior_switch self) p None) @ evs @
         fst (hook popen environ (post_fail self) p (Some (str_exn e))), Inl e)"
    using apply_hook_controller_raises [where do_apply = do_apply, OF h1 assms(2)]
      apply_hook_except_pystr [OF assms(3)]
    by (simp add: assms(3))
next
  fix cmd
  assume "c = Some cmd \<and> strip cmd \<noteq> [] \<and> str_exn e \<noteq> []"
  then show "Popen cmd (environ(''randr_profile'' \<mapsto> name p, ''randr_error'' \<mapsto> str_exn e))
          \<in> set (fst (hook popen environ (post_fail self) p (Some (str_exn e))))"
    using hook_popen_error_env [of cmd "str_exn e"] by (simp add: assms(3))
next
  fix h err
  show "snd (hook popen environ (pystr h) p err) = Inr ()"
    by (rule hook_pystr_returns)
next
  fix cmd err x
  assume "strip cmd \<noteq> [] \<and> popen cmd (hook_env environ p err) = Some x"
  then show "Log WARNING msg_hook_error [S cmd, S (str_exn x)]
          \<in> set (fst (hook popen environ (YStr cmd) p err))"
    using hook_warning by blast
qed

theorem apply_hook_failure_witness:
  "apply_hook (\<lambda>cmd env. if cmd = ''echo start'' then Some (Exception ''no shell'') else None)
      Map.empty
      \<lparr>prior_switch = YStr ''echo start'', post_switch = YBool True,
       post_fail = YStr ''echo fail''\<rparr>
      (\<lambda>p. ([Apply p], Inl (Exception ''boom'')))
      \<lparr>name = ''docked'', priority = 100, outputs = [], rules = None\<rparr> =
     ([Log DEBUG msg_calling [S ''echo start''],
       Popen ''echo start'' [''randr_profile'' \<mapsto> ''docked''],
       Log WARNING msg_hook_error [S ''echo start'', S ''no shell''],
       Apply \<lparr>name = ''docked'', priority = 100, outputs = [], rules = None\<rparr>,
       Log DEBUG msg_calling [S ''echo fail''],
       Popen ''echo fail'' [''randr_profile'' \<mapsto> ''docked'', ''randr_error'' \<mapsto> ''boom'']],
      Inl (Exception ''boom''))"
proof -
  let ?popen = "\<lambda>cmd (env :: env). if cmd = ''echo start'' then Some (Exception ''no shell'') else None"
  let ?self = "\<lparr>prior_switch = YStr ''echo start'', post_switch = YBool True,
       post_fail = YStr ''echo fail''\<rparr>"
  let ?p = "\<lparr>name = ''docked'', priority = 100, outputs = [], rules = None\<rparr>"
  have a1: "snd (hook ?popen Map.empty (prior_switch ?self) ?p None) = Inr ()"
    by (simp add: hook_def)
  have a2: "(\<lambda>p. ([Apply p], Inl (Exception ''boom''))) ?p = ([Apply ?p], Inl (Exception ''boom''))"
    by simp
  have a3: "post_fail ?self = pystr (Some ''echo fail'')"
    by simp
  show ?thesis
    using apply_hook_failure [where do_apply = "\<lambda>p. ([Apply p], Inl (Exception ''boom''))", OF a1 a2 a3]
    by (simp add: hook_def hook_env_def strip_def isspace_def)
qed

subsection \<open>The facade\<close>

text \<open>
  C7: when the profiles and the connected outputs were read and the matcher finds no
  profile, \<^verbatim>\<open>switch_auto\<close> logs one warning and returns normally; the run does not
  depend on the controller's \<^verbatim>\<open>apply\<close>, which is never called.
\<close>

theorem switch_auto_no_match:
  assumes "read_all (profile_manager self) = Inr profiles"
    and "get_connected_outputs (xrandr self) = Inr xrandr_outputs"
    and "matcher profiles xrandr_outputs = None"
  shows "switch_auto matcher self = ([Log WARNING ''No matching profile found'' []], Inr ()) \<and>
    (\<forall>a. switch_auto matcher (self\<lparr>xrandr := (xrandr self)\<lparr>xr_apply := a\<rparr>\<rparr>) =
           switch_auto matcher self)"
  using assms by (simp add: switch_auto_def)

theorem switch_auto_no_match_witness:
  "switch_auto (\<lambda>ps cs. None)
     \<lparr>profile_manager = \<lparr>read_all = Inr [], read_one = (\<lambda>n. Inl (Exception ''not found'')),
        profile_from_xrandr = (\<lambda>cs n. \<lparr>name = n, priority = 100, outputs = [], rules = None\<rparr>)\<rparr>,
      xrandr = \<lparr>xr_apply = (\<lambda>p. ([Apply p], Inr ())),
        get_connected_outputs = Inr ([] :: string list)\<rparr>\<rparr> =
   ([Log WARNING ''No matching profile found'' []], Inr ())"
  using switch_auto_no_match [of
     "\<lparr>profile_manager = \<lparr>read_all = Inr [], read_one = (\<lambda>n. Inl (Exception ''not found'')),
        profile_from_xrandr = (\<lambda>cs n. \<lparr>name = n, priority = 100, outputs = [], rules = None\<rparr>)\<rparr>,
      xrandr = \<lparr>xr_apply = (\<lambda>p. ([Apply p], Inr ())),
        get_connected_outputs = Inr ([] :: string list)\<rparr>\<rparr>" "[]" "[]" "\<lambda>ps cs. None"]
  by simp



subsection \<open>Homes\<close>

lemma is_valid_home_makedirs:
  "is_valid_home (makedirs (path_join h profile_dir) fs) h"
  by (simp add: is_valid_home_def makedirs_def isdir_def)


text \<open>
  C6: for a factory made from a list of candidates, \<^verbatim>\<open>ensure_homes\<close> keeps exactly the
  valid candidates, in their order, when there is one, with one warning when the first
  candidate is not among them and nothing else done; when no candidate is valid it makes
  the profiles directory under the first candidate, which is valid afterwards, and keeps
  that candidate alone.
\<close>

theorem ensure_homes_result:
  assumes "CtlFactory hs = Inr self"
  shows "ensure_homes self fs =
     (if filter (is_valid_home fs) hs \<noteq> [] then
        ((if is_valid_home fs (hd hs) then []
          else [Log WARNING ''No home directory found under preferred location %s''
                  [S (hd hs)]]) @
         [Log INFO ''Using %s as home directories'' [L (filter (is_valid_home fs) hs)]],
         self\<lparr>homes := filter (is_valid_home fs) hs\<rparr>, fs)
      else
        ([Log WARNING ''No home directories found among %s'' [L hs],
          Log WARNING ''Creating home under %s'' [S (hd hs)],
          Log INFO ''Using %s as home directories'' [L [hd hs]]],
         self\<lparr>homes := [hd hs]\<rparr>, makedirs (path_join (hd hs) profile_dir) fs)) \<and>
     (filter (is_valid_home fs) hs = [] \<longrightarrow>
        is_valid_home (snd (snd (ensure_homes self fs))) (hd hs))"
proof -
  from assms obtain h rest where hs: "hs = h # rest"
    and self: "self = \<lparr>preferred_home = h, homes = hs\<rparr>"
    by (auto simp: CtlFactory_def split: list.splits)
  have cnt: "count_list (filter (is_valid_home fs) hs) h = 0 \<longleftrightarrow> \<not> is_valid_home fs h"
    by (simp add: count_list_0_iff hs)
  have main: "ensure_homes self fs =
     (if filter (is_valid_home fs) hs \<noteq> [] then
        ((if is_valid_home fs (hd hs) then []
          else [Log WARNING ''No home directory found under preferred location %s''
                  [S (hd hs)]]) @
         [Log INFO ''Using %s as home directories'' [L (filter (is_valid_home fs) hs)]],
         self\<lparr>homes := filter (is_valid_home fs) hs\<rparr>, fs)
      else
        ([Log WARNING ''No home directories found among %s'' [L hs],
          Log WARNING ''Creating home under %s'' [S (hd hs)],
          Log INFO ''Using %s as home directories'' [L [hd hs]]],
         self\<lparr>homes := [hd hs]\<rparr>, makedirs (path_join (hd hs) profile_dir) fs))"
    using cnt unfolding ensure_homes_def init_home_def Let_def self
    by (simp add: hs)
  show ?thesis
    using main is_valid_home_makedirs [of "hd hs" fs] by simp
qed

theorem ensure_homes_result_witness:
  "ensure_homes \<lparr>preferred_home = ''~/.local/randrctl'',
        homes = [''~/.local/randrctl'', ''/etc/randrctl'']\<rparr>
      \<lparr>dirs = {''/etc/randrctl/profiles''}, files = Map.empty\<rparr> =
     ([Log WARNING ''No home directory found under preferred location %s''
         [S ''~/.local/randrctl''],
       Log INFO ''Using %s as home directories'' [L [''/etc/randrctl'']]],
      \<lparr>preferred_home = ''~/.local/randrctl'', homes = [''/etc/randrctl'']\<rparr>,
      \<lparr>dirs = {''/etc/randrctl/profiles''}, files = Map.empty\<rparr>) \<and>
   ensure_homes \<lparr>preferred_home = ''~/.local/randrctl'',
        homes = [''~/.local/randrctl'', ''/etc/randrctl'']\<rparr>
      \<lparr>dirs = {}, files = Map.empty\<rparr> =
     ([Log WARNING ''No home directories found among %s''
         [L [''~/.local/randrctl'', ''/etc/randrctl'']],
       Log WARNING ''Creating home under %s'' [S ''~/.local/randrctl''],
       Log INFO ''Using %s as home directories'' [L [''~/.local/randrctl'']]],
      \<lparr>preferred_home = ''~/.local/randrctl'', homes = [''~/.local/randrctl'']\<rparr>,
      makedirs ''~/.local/randrctl/profiles'' \<lparr>dirs = {}, files = Map.empty\<rparr>)"
proof -
  have c: "CtlFactory [''~/.local/randrctl'', ''/etc/randrctl''] =
      Inr \<lparr>preferred_home = ''~/.local/randrctl'',
        homes = [''~/.local/randrctl'', ''/etc/randrctl'']\<rparr>"
    by (simp add: CtlFactory_def)
  show ?thesis
    using ensure_homes_result [OF c, of "\<lparr>dirs = {''/etc/randrctl/profiles''}, files = Map.empty\<rparr>"]
      ensure_homes_result [OF c, of "\<lparr>dirs = {}, files = Map.empty\<rparr>"]
    by (simp add: is_valid_home_def isdir_def path_join_def profile_dir_def)
qed

subsection \<open>Reading the hooks from the configuration\<close>

text \<open>
  C10: \<^verbatim>\<open>_config_safe\<close> returns \<^verbatim>\<open>None\<close> when the section is absent from the
  configuration, and raises an \<^verbatim>\<open>AttributeError\<close> when the section is present with a
  value that is not a mapping (such as the null of an empty \<^verbatim>\<open>hooks:\<close> key); on such a
  configuration \<^verbatim>\<open>get_randrctl\<close> raises that error.
\<close>

theorem config_safe_section:
  "(config section = None \<longrightarrow> config_safe config section property = Inr YNull) \<and>
   (\<forall>v. config section = Some v \<and> (\<forall>kvs. v \<noteq> YMap kvs) \<longrightarrow>
      config_safe config section property = Inl (no_attribute v ''get'')) \<and>
   (\<forall>evs v. load_configs fs (rev (configs self fs)) Map.empty = (evs, Inr config) \<and>
        config ''hooks'' = Some v \<and> (\<forall>kvs. v \<noteq> YMap kvs) \<longrightarrow>
      get_randrctl popen environ ProfileManager Xrandr self fs =
        (evs, Inl (no_attribute v ''get'')))"
proof -
  have nm: "config_safe c s p = Inl (no_attribute v ''get'')"
    if "c s = Some v" "\<forall>kvs. v \<noteq> YMap kvs" for c s p v
    using that by (cases v) (simp_all add: config_safe_def)
  have absent: "config section = None \<longrightarrow> config_safe config section property = Inr YNull"
    by (simp add: config_safe_def)
  have fails: "get_randrctl popen environ ProfileManager Xrandr self fs =
        (evs, Inl (no_attribute v ''get''))"
    if "load_configs fs (rev (configs self fs)) Map.empty = (evs, Inr config)"
      "config ''hooks'' = Some v" "\<forall>kvs. v \<noteq> YMap kvs" for evs v
    using that nm [of config "''hooks''" v "''prior_switch''"]
    by (simp add: get_randrctl_def Let_def)
  show ?thesis
    using absent nm fails by blast
qed

theorem config_safe_section_witness:
  "get_randrctl (\<lambda>cmd env. None) Map.empty
      (\<lambda>paths. \<lparr>read_all = Inr [], read_one = (\<lambda>n. Inl (Exception ''not found'')),
         profile_from_xrandr = (\<lambda>cs n. \<lparr>name = n, priority = 100, outputs = [], rules = None\<rparr>)\<rparr>)
      \<lparr>xr_apply = (\<lambda>p. ([Apply p], Inr ())), get_connected_outputs = Inr ([] :: unit list)\<rparr>
      \<lparr>preferred_home = ''/etc/randrctl'', homes = [''/etc/randrctl'']\<rparr>
      \<lparr>dirs = {''/etc/randrctl/profiles''},
       files = [''/etc/randrctl/config.yaml'' \<mapsto> Mapping [(''hooks'', YNull)]]\<rparr> =
     ([Log DEBUG ''read configuration from %s'' [S ''/etc/randrctl/config.yaml'']],
      Inl (no_attribute YNull ''get'')) \<and>
   config_safe Map.empty ''hooks'' ''post_fail'' = Inr YNull"
  using config_safe_section [of "[''hooks'' \<mapsto> YNull]" "''hooks''" "''post_fail''"
      "\<lparr>dirs = {''/etc/randrctl/profiles''},
       files = [''/etc/randrctl/config.yaml'' \<mapsto> Mapping [(''hooks'', YNull)]]\<rparr>"
      "\<lparr>preferred_home = ''/etc/randrctl'', homes = [''/etc/randrctl'']\<rparr>"
      "\<lambda>cmd env. None" Map.empty
      "\<lambda>paths. \<lparr>read_all = Inr [], read_one = (\<lambda>n. Inl (Exception ''not found'')),
         profile_from_xrandr = (\<lambda>cs n. \<lparr>name = n, priority = 100, outputs = [], rules = None\<rparr>)\<rparr>"
      "\<lparr>xr_apply = (\<lambda>p. ([Apply p], Inr ())), get_connected_outputs = Inr ([] :: unit list)\<rparr>"]
    config_safe_section [of Map.empty "''hooks''" "''post_fail''"]
  by (simp add: configs_def isfile_def path_join_def config_name_def dict_update_def)

subsection \<open>Merging the configuration files\<close>

lemma dict_update_add: "dict_update c kvs = c ++ map_of (rev kvs)"
proof (induction kvs arbitrary: c)
  case Nil
  then show ?case by (simp add: dict_update_def)
next
  case (Cons kv kvs)
  obtain k v where kv: "kv = (k, v)" by (cases kv)
  have "dict_update c (kv # kvs) = dict_update (c(k \<mapsto> v)) kvs"
    by (simp add: dict_update_def kv)
  also have "\<dots> = c(k \<mapsto> v) ++ map_of (rev kvs)"
    by (rule Cons.IH)
  also have "\<dots> = c ++ map_of (rev (kv # kvs))"
    by (simp add: kv map_add_upd_left fun_eq_iff map_add_def split: option.splits)
  finally show ?case .
qed


lemma load_configs_fold:
  "snd (load_configs fs l c) = Inr c' \<Longrightarrow> c' = foldl (++) c (map (file_config fs) l)"
proof (induction l arbitrary: c)
  case Nil
  then show ?case by simp
next
  case (Cons x xs)
  show ?case
  proof (cases "files fs x")
    case None
    with Cons.prems show ?thesis by simp
  next
    case (Some d)
    show ?thesis
    proof (cases d)
      case (Unparsable m)
      with Some Cons.prems have "snd (load_configs fs xs c) = Inr c'"
        by (simp split: prod.splits)
      then have "c' = foldl (++) c (map (file_config fs) xs)" by (rule Cons.IH)
      moreover have "file_config fs x = Map.empty"
        by (simp add: file_config_def Some Unparsable)
      ultimately show ?thesis by simp
    next
      case Empty_document
      with Some Cons.prems show ?thesis by simp
    next
      case (Mapping kvs)
      with Some Cons.prems have "snd (load_configs fs xs (dict_update c kvs)) = Inr c'"
        by (simp split: prod.splits)
      then have "c' = foldl (++) (dict_update c kvs) (map (file_config fs) xs)"
        by (rule Cons.IH)
      moreover have "file_config fs x = map_of (rev kvs)"
        by (simp add: file_config_def Some Mapping)
      ultimately show ?thesis by (simp add: dict_update_add)
    qed
  qed
qed

lemma load_configs_total:
  "\<forall>f \<in> set l. loadable fs f \<Longrightarrow> \<exists>evs c'. load_configs fs l c = (evs, Inr c')"
proof (induction l arbitrary: c)
  case Nil
  then show ?case by simp
next
  case (Cons x xs)
  from Cons.prems obtain d where d: "files fs x = Some d" "d \<noteq> Empty_document"
    by (auto simp: loadable_def)
  from Cons.prems have rest: "\<forall>f \<in> set xs. loadable fs f" by simp
  show ?case
  proof (cases d)
    case (Unparsable m)
    from Cons.IH [OF rest, of c] obtain evs c' where "load_configs fs xs c = (evs, Inr c')"
      by blast
    then show ?thesis by (simp add: d Unparsable)
  next
    case Empty_document
    with d show ?thesis by simp
  next
    case (Mapping kvs)
    from Cons.IH [OF rest, of "dict_update c kvs"] obtain evs c'
      where "load_configs fs xs (dict_update c kvs) = (evs, Inr c')"
      by blast
    then show ?thesis by (simp add: d Mapping)
  qed
qed

lemma file_config_not_file: "\<not> isfile fs f \<Longrightarrow> file_config fs f = Map.empty"
  by (simp add: isfile_def file_config_def)

lemma fold_configs_homes:
  "foldl (++) c (map (file_config fs) (filter (isfile fs) (map (\<lambda>h. path_join h config_name) hs))) =
   foldl (++) c (map (home_config fs) hs)"
  by (induction hs arbitrary: c) (simp_all add: home_config_def file_config_not_file)

lemma rev_configs:
  "rev (configs self fs) =
     filter (isfile fs) (map (\<lambda>h. path_join h config_name) (rev (homes self)))"
  by (simp add: configs_def rev_filter rev_map)

lemma shallow_merge_lookup:
  "shallow_merge (map g (rev hs)) k =
     (case find (\<lambda>h. g h k \<noteq> None) hs of None \<Rightarrow> None | Some h \<Rightarrow> g h k)"
proof (induction hs)
  case Nil
  then show ?case by (simp add: shallow_merge_def)
next
  case (Cons h hs)
  have "shallow_merge (map g (rev (h # hs))) = shallow_merge (map g (rev hs)) ++ g h"
    by (simp add: shallow_merge_def)
  then show ?case
    using Cons.IH by (auto simp: map_add_def split: option.splits)
qed

text \<open>
  C5: whenever the loop of \<^verbatim>\<open>get_randrctl\<close> over the configuration files ends, the merged
  configuration is the shallow overwrite merge of the homes' configurations, taken from
  the least preferred home to the most preferred; the value of every top-level key is the
  whole value that the first home defining the key gives it. The loop ends when no
  configuration file is empty.
\<close>

theorem merged_config_overlay:
  "(\<forall>evs config. load_configs fs (rev (configs self fs)) Map.empty = (evs, Inr config) \<longrightarrow>
      config = shallow_merge (map (home_config fs) (rev (homes self))) \<and>
      (\<forall>k. config k =
         (case find (\<lambda>h. home_config fs h k \<noteq> None) (homes self) of
            None \<Rightarrow> None
          | Some h \<Rightarrow> home_config fs h k))) \<and>
   ((\<forall>h \<in> set (homes self). files fs (path_join h config_name) \<noteq> Some Empty_document) \<longrightarrow>
      (\<exists>evs config. load_configs fs (rev (configs self fs)) Map.empty = (evs, Inr config)))"
proof (intro conjI allI impI)
  fix evs config
  assume l: "load_configs fs (rev (configs self fs)) Map.empty = (evs, Inr config)"
  then have "snd (load_configs fs (rev (configs self fs)) Map.empty) = Inr config" by simp
  then have "config = foldl (++) Map.empty (map (file_config fs) (rev (configs self fs)))"
    by (rule load_configs_fold)
  then show m: "config = shallow_merge (map (home_config fs) (rev (homes self)))"
    by (simp add: rev_configs fold_configs_homes shallow_merge_def)
  fix k
  show "config k =
         (case find (\<lambda>h. home_config fs h k \<noteq> None) (homes self) of
            None \<Rightarrow> None
          | Some h \<Rightarrow> home_config fs h k)"
    unfolding m by (rule shallow_merge_lookup)
next
  assume a: "\<forall>h \<in> set (homes self). files fs (path_join h config_name) \<noteq> Some Empty_document"
  have "\<forall>f \<in> set (rev (configs self fs)). loadable fs f"
    using a by (auto simp: configs_def loadable_def isfile_def)
  then show "\<exists>evs config. load_configs fs (rev (configs self fs)) Map.empty = (evs, Inr config)"
    by (rule load_configs_total)
qed

theorem merged_config_overlay_witness:
  "(case snd (load_configs two_homes
        (rev (configs \<lparr>preferred_home = ''/home/u/.config/randrctl'',
                homes = [''/home/u/.config/randrctl'', ''/etc/randrctl'']\<rparr> two_homes))
        Map.empty) of
      Inl e \<Rightarrow> None
    | Inr config \<Rightarrow> config ''hooks'') =
   Some (YMap [(''prior_switch'', YStr ''echo start'')])"
  using merged_config_overlay [of two_homes
      "\<lparr>preferred_home = ''/home/u/.config/randrctl'',
        homes = [''/home/u/.config/randrctl'', ''/etc/randrctl'']\<rparr>"]
  by (simp add: two_homes_def configs_def isfile_def path_join_def config_name_def
      dict_update_def shallow_merge_def home_config_def file_config_def)



subsection \<open>The matcher\<close>

lemma set_insert_result: "set (insert_result r xs) = insert r (set xs)"
  by (induction xs) auto

lemma set_foldr_insert_result: "set (foldr insert_result rs []) = set rs"
  by (induction rs) (simp_all add: set_insert_result)

lemma set_match:
  "set (match profiles cs) =
     (\<lambda>p. (profile_score p cs, p)) ` {p \<in> set profiles. \<not> disqualified p cs}"
  by (auto simp: match_def set_foldr_insert_result)

lemma output_weight_nonneg: "0 \<le> output_weight r c"
  by (simp add: output_weight_def split: option.splits)

lemma profile_score_nonneg: "\<not> disqualified p cs \<Longrightarrow> 0 \<le> profile_score p cs"
  by (auto simp: profile_score_def output_weight_nonneg intro!: sum_list_nonneg
      split: option.splits)

lemma match_empty_iff:
  "match profiles cs = [] \<longleftrightarrow> (\<forall>p \<in> set profiles. disqualified p cs)"
proof -
  have "match profiles cs = [] \<longleftrightarrow> set (match profiles cs) = {}" by simp
  also have "\<dots> \<longleftrightarrow> (\<forall>p \<in> set profiles. disqualified p cs)"
    unfolding set_match by auto
  finally show ?thesis .
qed

lemma find_best_none_iff:
  "find_best profiles cs = None \<longleftrightarrow> match profiles cs = []"
proof (cases "match profiles cs")
  case Nil
  then show ?thesis by (simp add: find_best_def)
next
  case (Cons r rs)
  obtain s p where r: "r = (s, p)" by (cases r)
  have "(s, p) \<in> set (match profiles cs)" by (simp add: Cons r)
  then have "s = profile_score p cs" "\<not> disqualified p cs"
    by (auto simp: set_match)
  then have "disqualification_floor < s"
    using profile_score_nonneg [of p cs] by (simp add: disqualification_floor_def)
  then show ?thesis by (simp add: find_best_def Cons r)
qed

text \<open>
  C1: \<open>find_best\<close> returns nothing exactly when every profile names an output that is
  not among the connected outputs; on the empty list of profiles it returns nothing.
\<close>

theorem find_best_none:
  "(find_best profiles cs = None \<longleftrightarrow>
      (\<forall>p \<in> set profiles. \<exists>out \<in> set (outputs p). out_name out \<notin> co_name ` set cs)) \<and>
   find_best [] cs = None"
proof -
  have "find_best profiles cs = None \<longleftrightarrow>
      (\<forall>p \<in> set profiles. \<exists>out \<in> set (outputs p). out_name out \<notin> co_name ` set cs)"
    by (simp add: find_best_none_iff match_empty_iff disqualified_def present_def)
  moreover have "find_best [] cs = None"
    by (simp add: find_best_def match_def)
  ultimately show ?thesis by simp
qed

theorem find_best_none_witness:
  "find_best [office] [panel] = None \<and> find_best [office, laptop] [panel] = Some laptop"
proof -
  have a: "find_best [office] [panel] = None"
    using find_best_none [of "[office]" "[panel]"]
    by (simp add: office_def panel_def)
  have b: "find_best [office, laptop] [panel] = Some laptop"
    by (simp add: find_best_def match_def disqualified_def present_def profile_score_def
        office_def laptop_def panel_def disqualification_floor_def output_weight_def
        rule_for_def)
  from a b show ?thesis by simp
qed

end
